theory Spec2Isabelle
  imports Complex_Main "HOL-Library.Word" "HOL-Library.Log_Nat"
begin

section \<open>JavaScript values used by main.js\<close>

text \<open>
  A JavaScript string is a sequence of UTF-16 code units; \<open>startsWith\<close>, \<open>substring\<close> and
  the functions of the \<open>path\<close> module work on code units. \<open>str\<close> embeds an ASCII literal.
\<close>

type_synonym jschar = "16 word"
type_synonym jsstring = "jschar list"

definition str :: "string \<Rightarrow> jsstring" where
  "str s = map (\<lambda>c. of_nat (of_char c)) s"

text \<open>
  The numbers \<open>parseInt\<close> can return: an integer or \<open>NaN\<close>. (\<open>-0\<close>, which
  \<open>parseInt('-0', 16)\<close> returns, is not told apart from \<open>0\<close>.)
\<close>

datatype number = NaN | Num int

section \<open>parseColor (main.js, lines 66-74)\<close>

text \<open>
  \<open>parseInt(s, 16)\<close> as ECMAScript defines it: leading white space is skipped, one sign is
  read, a prefix \<open>0x\<close> or \<open>0X\<close> is dropped, then the longest run of hexadecimal digits is
  read; with no digit the result is \<open>NaN\<close>.
\<close>

definition isWhiteSpace :: "jschar \<Rightarrow> bool" where
  "isWhiteSpace c =
     (let n = unat c in
        n = 0x09 \<or> n = 0x0A \<or> n = 0x0B \<or> n = 0x0C \<or> n = 0x0D \<or> n = 0x20 \<or> n = 0xA0
        \<or> n = 0x1680 \<or> (0x2000 \<le> n \<and> n \<le> 0x200A) \<or> n = 0x2028 \<or> n = 0x2029
        \<or> n = 0x202F \<or> n = 0x205F \<or> n = 0x3000 \<or> n = 0xFEFF)"

definition hexDigit :: "jschar \<Rightarrow> nat option" where
  "hexDigit c =
     (let n = unat c in
        if 0x30 \<le> n \<and> n \<le> 0x39 then Some (n - 0x30)
        else if 0x41 \<le> n \<and> n \<le> 0x46 then Some (n - 0x41 + 10)
        else if 0x61 \<le> n \<and> n \<le> 0x66 then Some (n - 0x61 + 10)
        else None)"

definition isHexDigit :: "jschar \<Rightarrow> bool" where
  "isHexDigit c = (hexDigit c \<noteq> None)"

definition stripSign :: "jsstring \<Rightarrow> int \<times> jsstring" where
  "stripSign s =
     (case s of
        [] \<Rightarrow> (1, [])
      | c # rest \<Rightarrow> if c = 0x2D then (- 1, rest) else if c = 0x2B then (1, rest) else (1, s))"

definition stripPrefix :: "jsstring \<Rightarrow> jsstring" where
  "stripPrefix s =
     (case s of
        a # b # rest \<Rightarrow> if a = 0x30 \<and> (b = 0x78 \<or> b = 0x58) then rest else s
      | _ \<Rightarrow> s)"

definition hexValue :: "jsstring \<Rightarrow> nat" where
  "hexValue ds = foldl (\<lambda>acc c. 16 * acc + the (hexDigit c)) 0 ds"

definition parseInt16 :: "jsstring \<Rightarrow> number" where
  "parseInt16 s =
     (let (sign, s1) = stripSign (dropWhile isWhiteSpace s);
          digits = takeWhile isHexDigit (stripPrefix s1)
      in if digits = [] then NaN else Num (sign * int (hexValue digits)))"

record rgb =
  r :: number
  g :: number
  b :: number

definition substring :: "jsstring \<Rightarrow> nat \<Rightarrow> nat \<Rightarrow> jsstring" where
  "substring s i j = take (max i j - min i j) (drop (min i j) s)"

definition startsWith :: "jsstring \<Rightarrow> jsstring \<Rightarrow> bool" where
  "startsWith s p = (take (length p) s = p)"

definition parseColor :: "jsstring \<Rightarrow> rgb" where
  "parseColor color =
     (if \<not> startsWith color (str ''#'') then \<lparr>r = Num 255, g = Num 255, b = Num 255\<rparr>
      else let hex = drop 1 color in
        \<lparr>r = parseInt16 (substring hex 0 2),
         g = parseInt16 (substring hex 2 4),
         b = parseInt16 (substring hex 4 6)\<rparr>)"

text \<open>The format the documentation of \<open>parseColor\<close> names: \<open>#\<close> and six hexadecimal digits.\<close>

definition isHexColor :: "jsstring \<Rightarrow> bool" where
  "isHexColor color =
     (length color = 7 \<and> startsWith color (str ''#'') \<and> list_all isHexDigit (drop 1 color))"

section \<open>getColorByBrightness (main.js, lines 92-96)\<close>

definition BRIGHTNESS_THRESHOLD :: real where
  "BRIGHTNESS_THRESHOLD = 0.5"

record color_choice =
  color :: jsstring
  type :: jsstring

definition getColorByBrightness :: "real \<Rightarrow> color_choice" where
  "getColorByBrightness brightness =
     (let color = (if brightness > BRIGHTNESS_THRESHOLD then str ''#000000'' else str ''#FFFFFF'');
          type = (if brightness > BRIGHTNESS_THRESHOLD then str ''dark'' else str ''light'')
      in \<lparr>color = color, type = type\<rparr>)"

section \<open>wrapText (main.js, lines 105-121)\<close>

text \<open>
  \<open>for (const char of text)\<close> walks the text by code points, so the text is a list of
  code points \<open>'c\<close> and a line is a list of them. \<open>measureText\<close> is
  \<open>ctx.measureText(line).width\<close>, supplied by the canvas.
\<close>

fun wrapLoop :: "('c list \<Rightarrow> real) \<Rightarrow> real \<Rightarrow> 'c list list \<Rightarrow> 'c list \<Rightarrow> 'c list
    \<Rightarrow> 'c list list \<times> 'c list" where
  "wrapLoop measureText maxWidth lines currentLine [] = (lines, currentLine)"
| "wrapLoop measureText maxWidth lines currentLine (char # rest) =
     (let testLine = currentLine @ [char] in
        if measureText testLine > maxWidth \<and> length currentLine > 0
        then wrapLoop measureText maxWidth (lines @ [currentLine]) [char] rest
        else wrapLoop measureText maxWidth lines testLine rest)"

definition wrapText :: "'c list \<Rightarrow> ('c list \<Rightarrow> real) \<Rightarrow> real \<Rightarrow> 'c list list" where
  "wrapText text measureText maxWidth =
     (let (lines, currentLine) = wrapLoop measureText maxWidth [] [] text in
        if length currentLine > 0 then lines @ [currentLine] else lines)"

section \<open>getRegionConfig (main.js, lines 146-154)\<close>

text \<open>
  JavaScript numbers are IEEE 754 doubles, and \<open>width * 0.3\<close> is a product of doubles:
  of \<open>width\<close>, an integer that is a double (every integer below \<open>2^53\<close> in magnitude is
  one), and of the double nearest to 0.3, which is \<open>5404319552844595 / 2^54\<close>; the exact
  product is rounded to the nearest double, ties to even. A double constant is given by
  its numerator and by the exponent of its denominator; \<open>roundToDouble n\<close> rounds a
  non-negative integer to 53 significant bits, and \<open>floorTimes x c\<close> is
  \<open>Math.floor(x * c)\<close>. So \<open>Math.floor(90 * 0.7)\<close> is 62. (Overflow to infinity, far
  beyond \<open>2^1000\<close>, is left out.)
\<close>

definition roundToDouble :: "int \<Rightarrow> int" where
  "roundToDouble n =
     (let len = bitlen n in
        if len \<le> 53 then n
        else let s = nat (len - 53); q = n div 2 ^ s; rest = n mod 2 ^ s; half = 2 ^ (s - 1) in
          (if rest > half \<or> (rest = half \<and> odd q) then q + 1 else q) * 2 ^ s)"

definition floorTimes :: "int \<Rightarrow> int \<times> nat \<Rightarrow> int" where
  "floorTimes x c = (sgn x * roundToDouble (\<bar>x\<bar> * fst c)) div 2 ^ snd c"

definition double_0_3 :: "int \<times> nat" where
  "double_0_3 = (5404319552844595, 54)"

definition double_0_7 :: "int \<times> nat" where
  "double_0_7 = (6305039478318694, 53)"

text \<open>The rectangle \<open>{left, top, width, height}\<close>.\<close>

record region =
  left :: int
  top' :: int
  width :: int
  height :: int

text \<open>
  \<open>configs[position]\<close> reads a property of an object literal: one of its own, or one that
  every object inherits from \<open>Object.prototype\<close>, or \<open>undefined\<close>. \<open>x || y\<close> is \<open>y\<close> only
  when \<open>x\<close> is falsy; the own values here (objects, non-empty strings) and the inherited
  members (functions, the prototype object) are truthy.
\<close>

datatype 'a property = Own 'a | Inherited jsstring | Undefined

definition objectPrototypeKeys :: "jsstring list" where
  "objectPrototypeKeys = map str
     [''constructor'', ''__defineGetter__'', ''__defineSetter__'', ''hasOwnProperty'',
      ''__lookupGetter__'', ''__lookupSetter__'', ''isPrototypeOf'', ''propertyIsEnumerable'',
      ''toString'', ''valueOf'', ''__proto__'', ''toLocaleString'']"

definition getProperty :: "(jsstring \<times> 'a) list \<Rightarrow> jsstring \<Rightarrow> 'a property" where
  "getProperty obj key =
     (case map_of obj key of
        Some v \<Rightarrow> Own v
      | None \<Rightarrow> if key \<in> set objectPrototypeKeys then Inherited key else Undefined)"

definition orElse :: "'a property \<Rightarrow> 'a property \<Rightarrow> 'a property" where
  "orElse x y = (case x of Undefined \<Rightarrow> y | _ \<Rightarrow> x)"

definition getRegionConfig :: "jsstring \<Rightarrow> int \<Rightarrow> int \<Rightarrow> region property" where
  "getRegionConfig position w h =
     (let configs =
        [(str ''top-left'',
            \<lparr>left = 0, top' = 0,
             width = floorTimes w double_0_3, height = floorTimes h double_0_3\<rparr>),
         (str ''top-right'',
            \<lparr>left = floorTimes w double_0_7, top' = 0,
             width = floorTimes w double_0_3, height = floorTimes h double_0_3\<rparr>),
         (str ''bottom-left'',
            \<lparr>left = 0, top' = floorTimes h double_0_7,
             width = floorTimes w double_0_3, height = floorTimes h double_0_3\<rparr>),
         (str ''bottom-right'',
            \<lparr>left = floorTimes w double_0_7, top' = floorTimes h double_0_7,
             width = floorTimes w double_0_3, height = floorTimes h double_0_3\<rparr>)]
      in orElse (getProperty configs position) (getProperty configs (str ''bottom-right'')))"

text \<open>The rectangle lies inside \<open>[0,width) \<times> [0,height)\<close>.\<close>

definition contained :: "region \<Rightarrow> int \<Rightarrow> int \<Rightarrow> bool" where
  "contained reg w h =
     (0 \<le> left reg \<and> 0 \<le> top' reg \<and> 0 \<le> width reg \<and> 0 \<le> height reg
      \<and> left reg + width reg \<le> w \<and> top' reg + height reg \<le> h)"

section \<open>The path module (POSIX flavour)\<close>

text \<open>
  \<open>path.basename\<close>, \<open>path.extname\<close>, \<open>path.dirname\<close> and \<open>path.join\<close> belong to Node.js,
  not to this repository; they are written here after Node's \<open>path.posix\<close>. A path's last
  component is what follows its last separator once trailing separators are dropped.
\<close>

definition SLASH :: jschar where
  "SLASH = 0x2F"

definition DOT :: jschar where
  "DOT = 0x2E"

definition stripTrailingSlashes :: "jsstring \<Rightarrow> jsstring" where
  "stripTrailingSlashes p = rev (dropWhile (\<lambda>c. c = SLASH) (rev p))"

definition lastComponent :: "jsstring \<Rightarrow> jsstring" where
  "lastComponent p = rev (takeWhile (\<lambda>c. c \<noteq> SLASH) (rev (stripTrailingSlashes p)))"

definition endsWith :: "jsstring \<Rightarrow> jsstring \<Rightarrow> bool" where
  "endsWith s suffix = (length suffix \<le> length s \<and> drop (length s - length suffix) s = suffix)"

text \<open>
  \<open>path.basename(p)\<close> and \<open>path.basename(p, suffix)\<close>; the suffix is one without a
  separator, as \<open>path.extname\<close> returns it.
\<close>

definition basename :: "jsstring \<Rightarrow> jsstring" where
  "basename p = lastComponent p"

definition basenameSuffix :: "jsstring \<Rightarrow> jsstring \<Rightarrow> jsstring" where
  "basenameSuffix p suffix =
     (if suffix \<noteq> [] \<and> length suffix \<le> length p then
        if suffix = p then []
        else let base = lastComponent p in
          if endsWith base suffix \<and> base \<noteq> suffix
          then take (length base - length suffix) base else base
      else lastComponent p)"

definition extname :: "jsstring \<Rightarrow> jsstring" where
  "extname p =
     (let base = lastComponent p;
          afterDot = rev (takeWhile (\<lambda>c. c \<noteq> DOT) (rev base));
          startDot = length base - length afterDot - 1
      in if DOT \<notin> set base \<or> startDot = 0 \<or> base = [DOT, DOT] then []
         else drop startDot base)"

definition dirname :: "jsstring \<Rightarrow> jsstring" where
  "dirname p =
     (if p = [] then [DOT]
      else let hasRoot = (hd p = SLASH);
               stripped = stripTrailingSlashes p;
               prefixLength = length stripped - length (lastComponent p)
           in if prefixLength \<le> 1 then (if hasRoot then [SLASH] else [DOT])
              else if hasRoot \<and> prefixLength - 1 = 1 then [SLASH, SLASH]
              else take (prefixLength - 1) p)"

fun splitSlash :: "jsstring \<Rightarrow> jsstring list" where
  "splitSlash [] = [[]]"
| "splitSlash (c # cs) =
     (if c = SLASH then [] # splitSlash cs
      else case splitSlash cs of seg # segs \<Rightarrow> (c # seg) # segs | [] \<Rightarrow> [[c]])"

fun joinSlash :: "jsstring list \<Rightarrow> jsstring" where
  "joinSlash [] = []"
| "joinSlash [seg] = seg"
| "joinSlash (seg # segs) = seg @ SLASH # joinSlash segs"

definition normalizeStep :: "bool \<Rightarrow> jsstring list \<Rightarrow> jsstring \<Rightarrow> jsstring list" where
  "normalizeStep allowAboveRoot res seg =
     (if seg = [] \<or> seg = [DOT] then res
      else if seg = [DOT, DOT] then
        (if res \<noteq> [] \<and> last res \<noteq> [DOT, DOT] then butlast res
         else if allowAboveRoot then res @ [seg] else res)
      else res @ [seg])"

definition normalizeString :: "jsstring \<Rightarrow> bool \<Rightarrow> jsstring" where
  "normalizeString p allowAboveRoot =
     joinSlash (foldl (normalizeStep allowAboveRoot) [] (splitSlash p))"

definition normalize :: "jsstring \<Rightarrow> jsstring" where
  "normalize p =
     (if p = [] then [DOT]
      else let isAbsolute = (hd p = SLASH);
               trailingSeparator = (last p = SLASH);
               res = normalizeString p (\<not> isAbsolute)
           in if res = [] then
                (if isAbsolute then [SLASH] else if trailingSeparator then [DOT, SLASH] else [DOT])
              else (if isAbsolute then [SLASH] else []) @ res
                   @ (if trailingSeparator then [SLASH] else []))"

definition join :: "jsstring \<Rightarrow> jsstring \<Rightarrow> jsstring" where
  "join p q =
     (if p = [] \<and> q = [] then [DOT]
      else if p = [] then normalize q
      else if q = [] then normalize p
      else normalize (p @ SLASH # q))"

definition outputFileOf :: "jsstring \<Rightarrow> jsstring" where
  "outputFileOf videoFile =
     join (dirname videoFile)
       (basenameSuffix videoFile (extname videoFile) @ str ''-watermark.mp4'')"

section \<open>buildOverlayFilter (main.js, lines 128-137)\<close>

definition buildOverlayFilter :: "jsstring \<Rightarrow> jsstring property" where
  "buildOverlayFilter position =
     (let positionMap =
        [(str ''top-left'', str ''overlay=10:10''),
         (str ''top-right'', str ''overlay=W-w-10:10''),
         (str ''bottom-left'', str ''overlay=10:H-h-10''),
         (str ''bottom-right'', str ''overlay=W-w-10:H-h-10'')]
      in orElse (getProperty positionMap position) (getProperty positionMap (str ''bottom-right'')))"

section \<open>The outside world of one job\<close>

text \<open>
  The text of an \<open>Error\<close>. The two errors main.js raises itself carry Chinese texts,
  given by their code units.
\<close>

type_synonym message = jsstring

definition fileNotFoundMessage :: message where
  "fileNotFoundMessage = [0x6587, 0x4EF6, 0x4E0D, 0x5B58, 0x5728]"

definition noVideoStreamMessage :: message where
  "noVideoStreamMessage = [0x672A, 0x627E, 0x5230, 0x89C6, 0x9891, 0x6D41]"

datatype stream = Stream (codec_type: jsstring) (streamWidth: int) (streamHeight: int)

record metadata =
  streams :: "stream list"
  formatDuration :: real

record videoInfo =
  infoWidth :: int
  infoHeight :: int
  infoDuration :: real

text \<open>
  What the compositing call meets: \<open>createTempDir\<close> (its \<open>mkdir\<close> may reject),
  \<open>fs.writeFileSync\<close> (may throw), then FFmpeg, which reports progress and ends with
  \<open>error\<close> or \<open>end\<close>.
\<close>

record compositing =
  mkdir :: "message option"
  writeFileSync :: "message option"
  progressPercents :: "real option list"
  ffmpegError :: "message option"

record 'c watermarkImage =
  canvasWidth :: int
  canvasHeight :: int
  fillStyle :: "rgb \<times> real"
  fillText :: "('c list \<times> int) list"

text \<open>
  Everything outside main.js that one job consults, each call answering with a value or
  with an error: \<open>fs.existsSync\<close>; \<open>FFmpeg.ffprobe\<close>; for the colour analysis, the
  thumbnail (\<open>createTempDir\<close>, \<open>extractThumbnail\<close> and sharp's \<open>metadata\<close>, giving the
  thumbnail's width and height) and the pixels of the region (sharp's \<open>extract\<close>, with the
  averaging and \<open>calculateBrightness\<close> on them, giving the brightness); the canvas
  (\<open>createCanvas\<close>, \<open>toBuffer\<close> may throw; \<open>measureText\<close> at a font size); and the
  compositing, given the watermark image and the overlay filter. Two things are taken
  for granted: every call to the outside answers, and \<open>mainWindow.webContents.send\<close>
  does not throw.
\<close>

record 'c world =
  existsSync :: bool
  ffprobe :: "message + metadata"
  thumbnail :: "message + int \<times> int"
  regionBrightness :: "region property \<Rightarrow> message + real"
  canvasError :: "message option"
  measureText :: "int \<Rightarrow> 'c list \<Rightarrow> real"
  compositor :: "'c watermarkImage \<Rightarrow> jsstring property \<Rightarrow> compositing"

section \<open>getVideoInfo (main.js, lines 206-223)\<close>

definition getVideoInfo :: "message + metadata \<Rightarrow> message + videoInfo" where
  "getVideoInfo probe =
     (case probe of
        Inl err \<Rightarrow> Inl err
      | Inr md \<Rightarrow>
          (case find (\<lambda>s. codec_type s = str ''video'') (streams md) of
             None \<Rightarrow> Inl noVideoStreamMessage
           | Some videoStream \<Rightarrow>
               Inr \<lparr>infoWidth = streamWidth videoStream, infoHeight = streamHeight videoStream,
                    infoDuration = formatDuration md\<rparr>))"

section \<open>analyzeVideoColor (main.js, lines 243-283)\<close>

definition analyzeVideoColor :: "'c world \<Rightarrow> jsstring \<Rightarrow> message + color_choice \<times> real" where
  "analyzeVideoColor wd position =
     (case thumbnail wd of
        Inl err \<Rightarrow> Inl err
      | Inr (w, h) \<Rightarrow>
          (case regionBrightness wd (getRegionConfig position w h) of
             Inl err \<Rightarrow> Inl err
           | Inr brightness \<Rightarrow> Inr (getColorByBrightness brightness, brightness)))"

section \<open>generateWatermarkImage (main.js, lines 166-199)\<close>

definition PADDING_x :: int where
  "PADDING_x = 10"

definition generateWatermarkImage ::
  "'c world \<Rightarrow> 'c list \<Rightarrow> int \<Rightarrow> jsstring \<Rightarrow> real \<Rightarrow> int \<Rightarrow> int \<Rightarrow> message + 'c watermarkImage" where
  "generateWatermarkImage wd text fontSize col opacity videoWidth videoHeight =
     (case canvasError wd of
        Some err \<Rightarrow> Inl err
      | None \<Rightarrow>
          let maxWidth = videoWidth - PADDING_x * 2;
              lines = wrapText text (measureText wd fontSize) (real_of_int maxWidth);
              lineHeight = fontSize + 8;
              textHeight = int (length lines) * lineHeight;
              maxLineWidth = foldl (\<lambda>m line. max m \<lceil>measureText wd fontSize line\<rceil>) 0 lines;
              canvasWidth = min (maxLineWidth + 4) maxWidth
          in Inr \<lparr>canvasWidth = canvasWidth, canvasHeight = textHeight + 4,
                  fillStyle = (parseColor col, opacity),
                  fillText = map (\<lambda>(index, line). (line, int index * lineHeight))
                               (enumerate 0 lines)\<rparr>)"

section \<open>processVideoWithCanvasWatermark (main.js, lines 294-317)\<close>

text \<open>
  How a promise ends. The function returns \<open>new Promise(async (resolve, reject) => ...)\<close>
  and awaits \<open>createTempDir()\<close> before its \<open>try\<close>: when that rejects, the executor's own
  promise rejects, neither \<open>resolve\<close> nor \<open>reject\<close> is ever called, and the promise
  returned stays pending.
\<close>

datatype 'a settled = Resolved 'a | Rejected message | Pending

definition mathRound :: "real \<Rightarrow> int" where
  "mathRound x = \<lfloor>x + 1 / 2\<rfloor>"

definition processVideoWithCanvasWatermark :: "compositing \<Rightarrow> int list \<times> unit settled" where
  "processVideoWithCanvasWatermark c =
     (case mkdir c of
        Some err \<Rightarrow> ([], Pending)
      | None \<Rightarrow>
          (case writeFileSync c of
             Some err \<Rightarrow> ([], Rejected err)
           | None \<Rightarrow>
               (map (\<lambda>percent. mathRound (case percent of None \<Rightarrow> 0 | Some x \<Rightarrow> x))
                  (progressPercents c),
                case ffmpegError c of Some err \<Rightarrow> Rejected err | None \<Rightarrow> Resolved ())))"

section \<open>The handler of process-videos (main.js, lines 379-454)\<close>

record 'c options =
  videoFiles :: "jsstring list"
  watermarkText :: "'c list"
  fontSize :: real
  watermarkColor :: jsstring
  opacity :: real
  position :: jsstring
  enableSmartColor :: bool

text \<open>
  The messages sent to the window: \<open>processing-status\<close> (file, status, index, total),
  \<open>color-analyzed\<close> (file, color, brightness, error, type, position, index),
  \<open>processing-progress\<close> (file, progress, index, total) and \<open>file-completed\<close>
  (file, status, error, index, total). A field the message does not carry is \<open>None\<close>.
\<close>

datatype event =
    ProcessingStatus jsstring jsstring nat nat
  | ColorAnalyzed jsstring jsstring "real option" "message option" jsstring jsstring nat
  | ProcessingProgress jsstring int nat nat
  | FileCompleted jsstring jsstring "message option" nat nat

text \<open>
  An entry of \<open>results\<close>: \<open>{file, status: 'success', output, color, colorType}\<close> or
  \<open>{file, status: 'error', error}\<close>.
\<close>

datatype jobResult =
    Success jsstring jsstring jsstring jsstring
  | Failure jsstring message

fun resultFile :: "jobResult \<Rightarrow> jsstring" where
  "resultFile (Success file output col colorType) = file"
| "resultFile (Failure file err) = file"

fun resultStatus :: "jobResult \<Rightarrow> jsstring" where
  "resultStatus (Success file output col colorType) = str ''success''"
| "resultStatus (Failure file err) = str ''error''"

text \<open>The choice of the colour, lines 394-429: the inner \<open>try\<close> and its \<open>catch\<close>.\<close>

definition chooseColor ::
  "'c options \<Rightarrow> nat \<Rightarrow> nat \<Rightarrow> jsstring \<Rightarrow> 'c world \<Rightarrow> event list \<times> jsstring \<times> jsstring" where
  "chooseColor opts total' i baseName wd =
     (if enableSmartColor opts then
        (case analyzeVideoColor wd (position opts) of
           Inr (colorResult, brightness) \<Rightarrow>
             ([ProcessingStatus baseName (str ''analyzing'') i total',
               ColorAnalyzed baseName (color colorResult) (Some brightness) None
                 (type colorResult) (position opts) i],
              color colorResult, type colorResult)
         | Inl analyzeError \<Rightarrow>
             ([ProcessingStatus baseName (str ''analyzing'') i total',
               ColorAnalyzed baseName (watermarkColor opts) None (Some analyzeError)
                 (str ''original'') (position opts) i],
              watermarkColor opts, str ''manual''))
      else ([], watermarkColor opts, str ''manual''))"

text \<open>The body of the outer \<open>try\<close>, lines 388-445.\<close>

definition jobBody ::
  "'c options \<Rightarrow> nat \<Rightarrow> nat \<Rightarrow> jsstring \<Rightarrow> 'c world \<Rightarrow> event list \<times> jobResult settled" where
  "jobBody opts total' i videoFile wd =
     (let baseName = basename videoFile in
      if \<not> existsSync wd then ([], Rejected fileNotFoundMessage)
      else let outputFile = outputFileOf videoFile in
        case getVideoInfo (ffprobe wd) of
          Inl err \<Rightarrow> ([], Rejected err)
        | Inr info \<Rightarrow>
            let (colorEvents, finalColor, colorType) = chooseColor opts total' i baseName wd;
                scaledFontSize = mathRound (fontSize opts * (real_of_int (infoHeight info) / 1080))
            in case generateWatermarkImage wd (watermarkText opts) scaledFontSize finalColor
                      (opacity opts) (infoWidth info) (infoHeight info) of
                 Inl err \<Rightarrow> (colorEvents, Rejected err)
               | Inr watermarkBuffer \<Rightarrow>
                   let overlayFilter = buildOverlayFilter (position opts);
                       (percents, outcome) =
                          processVideoWithCanvasWatermark (compositor wd watermarkBuffer overlayFilter);
                       progressEvents = map (\<lambda>progress. ProcessingProgress baseName progress i total') percents
                   in case outcome of
                        Pending \<Rightarrow> (colorEvents @ progressEvents, Pending)
                      | Rejected err \<Rightarrow> (colorEvents @ progressEvents, Rejected err)
                      | Resolved _ \<Rightarrow>
                          (colorEvents @ progressEvents
                             @ [FileCompleted baseName (str ''success'') None i total'],
                           Resolved (Success baseName outputFile finalColor colorType)))"

text \<open>
  One round of the loop: the body and the outer \<open>catch\<close>. The result is \<open>None\<close> when the
  round never ends.
\<close>

definition processJob ::
  "'c options \<Rightarrow> nat \<Rightarrow> nat \<Rightarrow> jsstring \<Rightarrow> 'c world \<Rightarrow> event list \<times> jobResult option" where
  "processJob opts total' i videoFile wd =
     (let baseName = basename videoFile in
      case jobBody opts total' i videoFile wd of
        (events, Resolved res) \<Rightarrow> (events, Some res)
      | (events, Rejected err) \<Rightarrow>
          (events @ [FileCompleted baseName (str ''error'') (Some err) i total'],
           Some (Failure baseName err))
      | (events, Pending) \<Rightarrow> (events, None))"

text \<open>
  The loop over \<open>videoFiles\<close>; \<open>worlds i\<close> is the world that round \<open>i\<close> meets. The handler
  returns \<open>results\<close> after the last round, and never returns when a round never ends.
\<close>

fun runJobs :: "'c options \<Rightarrow> (nat \<Rightarrow> 'c world) \<Rightarrow> nat \<Rightarrow> jobResult list \<Rightarrow> nat \<Rightarrow> jsstring list
    \<Rightarrow> event list \<times> jobResult list option" where
  "runJobs opts worlds total' results i [] = ([], Some results)"
| "runJobs opts worlds total' results i (videoFile # rest) =
     (case processJob opts total' i videoFile (worlds i) of
        (events, None) \<Rightarrow> (events, None)
      | (events, Some res) \<Rightarrow>
          (let (events', out) = runJobs opts worlds total' (results @ [res]) (Suc i) rest
           in (events @ events', out)))"

definition processVideos ::
  "'c options \<Rightarrow> (nat \<Rightarrow> 'c world) \<Rightarrow> event list \<times> jobResult list option" where
  "processVideos opts worlds =
     runJobs opts worlds (length (videoFiles opts)) [] 0 (videoFiles opts)"

section \<open>The click on the process button (script.js, lines 103-150)\<close>

record video =
  name :: jsstring
  path :: jsstring
  status :: jsstring

text \<open>
  What the handler reads from the page: the values of the inputs (the numbers as
  \<open>parseInt\<close> read them), the check box, and the variables \<open>selectedVideos\<close> and
  \<open>selectedPosition\<close>.
\<close>

record 'c page =
  watermarkTextValue :: "'c list"
  fontSizeValue :: real
  watermarkColorValue :: jsstring
  watermarkOpacityValue :: real
  smartColorChecked :: bool
  selectedVideos :: "video list"
  selectedPosition :: jsstring

text \<open>
  The handler either shows an alert and returns, or calls \<open>processVideos\<close>.
\<close>

datatype alert = FillInWatermarkText | SelectVideosFirst

datatype 'c click = Alert alert | Invoke "'c options"

definition processButtonClick :: "'c page \<Rightarrow> 'c click" where
  "processButtonClick pg =
     (if watermarkTextValue pg = [] then Alert FillInWatermarkText
      else if length (selectedVideos pg) = 0 then Alert SelectVideosFirst
      else Invoke \<lparr>videoFiles = map path (selectedVideos pg),
                   watermarkText = watermarkTextValue pg,
                   fontSize = fontSizeValue pg,
                   watermarkColor = watermarkColorValue pg,
                   opacity = watermarkOpacityValue pg / 100,
                   position = selectedPosition pg,
                   enableSmartColor = smartColorChecked pg\<rparr>)"


section \<open>Example inputs\<close>

text \<open>
  A world in which every step of a job succeeds, a request for two files of which the
  second does not exist, a world in which the scratch directory of the compositing step
  cannot be created, and a filled-in page.
\<close>

definition demoWorld :: "char world" where
  "demoWorld =
     \<lparr>existsSync = True,
      ffprobe = Inr \<lparr>streams = [Stream (str ''audio'') 0 0, Stream (str ''video'') 1920 1080],
                     formatDuration = 12\<rparr>,
      thumbnail = Inr (640, 360),
      regionBrightness = (\<lambda>reg. Inr 0.8),
      canvasError = None,
      measureText = (\<lambda>size line. real_of_int size * real (length line) / 2),
      compositor = (\<lambda>image overlay.
        \<lparr>mkdir = None, writeFileSync = None,
         progressPercents = [Some 49.6, None, Some 100], ffmpegError = None\<rparr>)\<rparr>"

definition demoOptions :: "char options" where
  "demoOptions =
     \<lparr>videoFiles = [str ''/videos/a.mov'', str ''/videos/missing.mp4''],
      watermarkText = ''Demo'', fontSize = 24, watermarkColor = str ''#FFFFFF'',
      opacity = 0.8, position = str ''bottom-right'', enableSmartColor = False\<rparr>"

definition demoWorlds :: "nat \<Rightarrow> char world" where
  "demoWorlds i = (if i = 1 then demoWorld\<lparr>existsSync := False\<rparr> else demoWorld)"

definition noScratchDir :: "char world" where
  "noScratchDir =
     demoWorld\<lparr>compositor := (\<lambda>image overlay.
       \<lparr>mkdir = Some (str ''ENOSPC''), writeFileSync = None,
        progressPercents = [], ffmpegError = None\<rparr>)\<rparr>"

definition demoPage :: "char page" where
  "demoPage =
     \<lparr>watermarkTextValue = ''Demo'', fontSizeValue = 24, watermarkColorValue = str ''#FFFFFF'',
      watermarkOpacityValue = 80, smartColorChecked = False,
      selectedVideos = [\<lparr>name = str ''a.mov'', path = str ''/videos/a.mov'', status = str ''pending''\<rparr>],
      selectedPosition = str ''bottom-right''\<rparr>"

section \<open>Properties of parseColor\<close>

lemma startsWith_hash: "startsWith col (str ''#'') \<longleftrightarrow> (\<exists>rest. col = 0x23 # rest)"
  by (cases col) (auto simp: startsWith_def str_def)

lemma hexDigit_bound: "hexDigit c = Some d \<Longrightarrow> d < 16"
  by (auto simp: hexDigit_def Let_def split: if_splits)

lemma isHexDigit_plain:
  assumes "isHexDigit c"
  shows "\<not> isWhiteSpace c" and "c \<noteq> 0x2D" and "c \<noteq> 0x2B" and "c \<noteq> 0x78" and "c \<noteq> 0x58"
  using assms
  by (auto simp: isHexDigit_def hexDigit_def isWhiteSpace_def Let_def split: if_splits)

lemma parseInt16_two_digits:
  assumes "hexDigit c = Some x" and "hexDigit d = Some y"
  shows "parseInt16 [c, d] = Num (int (16 * x + y))"
proof -
  have c: "isHexDigit c" and d: "isHexDigit d"
    using assms by (simp_all add: isHexDigit_def)
  have "dropWhile isWhiteSpace [c, d] = [c, d]"
    using isHexDigit_plain(1)[OF c] by simp
  moreover have "stripSign [c, d] = (1, [c, d])"
    using isHexDigit_plain(2,3)[OF c] by (simp add: stripSign_def)
  moreover have "stripPrefix [c, d] = [c, d]"
    using isHexDigit_plain(4,5)[OF d] by (simp add: stripPrefix_def)
  moreover have "takeWhile isHexDigit [c, d] = [c, d]"
    using c d by simp
  ultimately show ?thesis
    using assms by (simp add: parseInt16_def hexValue_def)
qed

lemma isHexColor_shape:
  assumes "isHexColor col"
  obtains c1 c2 c3 c4 c5 c6 where "col = [0x23, c1, c2, c3, c4, c5, c6]"
    and "isHexDigit c1" "isHexDigit c2" "isHexDigit c3"
    and "isHexDigit c4" "isHexDigit c5" "isHexDigit c6"
proof -
  from assms have len: "length col = 7" and hash: "startsWith col (str ''#'')"
    and hex: "list_all isHexDigit (drop 1 col)"
    by (simp_all add: isHexColor_def)
  from hash obtain rest where col: "col = 0x23 # rest"
    by (auto simp: startsWith_hash)
  with len have "length rest = 6" by simp
  then obtain c1 c2 c3 c4 c5 c6 where "rest = [c1, c2, c3, c4, c5, c6]"
    by (auto simp: length_Suc_conv eval_nat_numeral)
  with col hex that show thesis by simp
qed

lemma parseColor_hex:
  assumes "isHexColor col"
  shows "\<exists>x y z. parseColor col = \<lparr>r = Num x, g = Num y, b = Num z\<rparr>
           \<and> 0 \<le> x \<and> x \<le> 255 \<and> 0 \<le> y \<and> y \<le> 255 \<and> 0 \<le> z \<and> z \<le> 255"
proof -
  from assms obtain c1 c2 c3 c4 c5 c6 where col: "col = [0x23, c1, c2, c3, c4, c5, c6]"
    and h: "isHexDigit c1" "isHexDigit c2" "isHexDigit c3"
           "isHexDigit c4" "isHexDigit c5" "isHexDigit c6"
    by (rule isHexColor_shape)
  from h obtain d1 d2 d3 d4 d5 d6 where d:
    "hexDigit c1 = Some d1" "hexDigit c2 = Some d2" "hexDigit c3 = Some d3"
    "hexDigit c4 = Some d4" "hexDigit c5 = Some d5" "hexDigit c6 = Some d6"
    by (auto simp: isHexDigit_def)
  have bounds: "d1 < 16" "d2 < 16" "d3 < 16" "d4 < 16" "d5 < 16" "d6 < 16"
    using d by (auto dest: hexDigit_bound)
  have "parseColor col =
      \<lparr>r = parseInt16 [c1, c2], g = parseInt16 [c3, c4], b = parseInt16 [c5, c6]\<rparr>"
    by (simp add: col parseColor_def startsWith_hash substring_def)
  then have "parseColor col =
      \<lparr>r = Num (int (16 * d1 + d2)), g = Num (int (16 * d3 + d4)), b = Num (int (16 * d5 + d6))\<rparr>"
    using d by (simp add: parseInt16_two_digits)
  then show ?thesis using bounds by auto
qed

section \<open>Properties of wrapText\<close>

lemma wrapLoop_concat:
  "wrapLoop widthOf maxWidth lines cur text = (lines', cur')
     \<Longrightarrow> concat lines' @ cur' = concat lines @ cur @ text"
  by (induction "text" arbitrary: lines cur) (auto simp: Let_def split: if_splits)

lemma wrapLoop_width:
  assumes "wrapLoop widthOf maxWidth lines cur text = (lines', cur')"
    and "\<forall>l \<in> set lines. length l = 1 \<or> widthOf l \<le> maxWidth"
    and "cur = [] \<or> length cur = 1 \<or> widthOf cur \<le> maxWidth"
  shows "(\<forall>l \<in> set lines'. length l = 1 \<or> widthOf l \<le> maxWidth)
           \<and> (cur' = [] \<or> length cur' = 1 \<or> widthOf cur' \<le> maxWidth)"
  using assms
proof (induction "text" arbitrary: lines cur)
  case Nil
  then show ?case by simp
next
  case (Cons char rest)
  show ?case
  proof (cases "widthOf (cur @ [char]) > maxWidth \<and> length cur > 0")
    case True
    with Cons.prems(1) have "wrapLoop widthOf maxWidth (lines @ [cur]) [char] rest = (lines', cur')"
      by simp
    moreover from True Cons.prems(2,3)
    have "\<forall>l \<in> set (lines @ [cur]). length l = 1 \<or> widthOf l \<le> maxWidth"
      by auto
    ultimately show ?thesis
      by (rule Cons.IH) simp
  next
    case False
    with Cons.prems(1) have "wrapLoop widthOf maxWidth lines (cur @ [char]) rest = (lines', cur')"
      by (auto simp: Let_def)
    moreover from False
    have "cur @ [char] = [] \<or> length (cur @ [char]) = 1 \<or> widthOf (cur @ [char]) \<le> maxWidth"
      by (cases cur) auto
    ultimately show ?thesis
      using Cons.prems(2) by (intro Cons.IH)
  qed
qed

lemma wrapLoop_nonempty:
  "wrapLoop widthOf maxWidth lines cur text = (lines', cur') \<Longrightarrow> [] \<notin> set lines
     \<Longrightarrow> [] \<notin> set lines'"
  by (induction "text" arbitrary: lines cur) (auto simp: Let_def split: if_splits)

section \<open>Properties of the double arithmetic\<close>

lemma roundToDouble_zero: "roundToDouble 0 = 0"
  by (simp add: roundToDouble_def)

lemma roundToDouble_nonneg: "0 \<le> n \<Longrightarrow> 0 \<le> roundToDouble n"
  by (auto simp: roundToDouble_def Let_def pos_imp_zdiv_nonneg_iff)

lemma roundToDouble_upper:
  assumes "0 < n" and "n < 2 ^ 106"
  shows "roundToDouble n \<le> n + 2 ^ 52"
proof (cases "bitlen n \<le> 53")
  case True
  then show ?thesis
    by (simp add: roundToDouble_def)
next
  case False
  define s where "s = nat (bitlen n - 53)"
  define half :: int where "half = 2 ^ (s - 1)"
  let ?q = "n div 2 ^ s" and ?rest = "n mod 2 ^ s"
  from False have s: "0 < s"
    by (simp add: s_def)
  then have pow: "(2::int) ^ s = 2 * half"
    by (cases s) (simp_all add: half_def)
  have split: "?q * 2 ^ s + ?rest = n" and rest: "0 \<le> ?rest"
    by (simp_all add: div_mult_mod_eq)
  from assms(2) have "bitlen n \<le> 106"
    by (simp add: bitlen_le_iff_power)
  then have "s - 1 \<le> 52"
    by (simp add: s_def)
  then have "half \<le> 2 ^ 52"
    unfolding half_def by (rule power_increasing) simp
  have val: "roundToDouble n =
      (if ?rest > half \<or> (?rest = half \<and> odd ?q) then ?q + 1 else ?q) * 2 ^ s"
    using False by (simp add: roundToDouble_def Let_def s_def half_def)
  have "roundToDouble n \<le> n + half"
  proof (cases "?rest > half \<or> (?rest = half \<and> odd ?q)")
    case True
    then have "half \<le> ?rest" by auto
    moreover from True have "roundToDouble n = ?q * 2 ^ s + 2 ^ s"
      by (simp add: val algebra_simps)
    ultimately show ?thesis
      using split pow by linarith
  next
    case False
    then have "roundToDouble n = ?q * 2 ^ s"
      by (simp add: val)
    moreover have "0 \<le> half"
      by (simp add: half_def)
    ultimately show ?thesis
      using split rest by linarith
  qed
  with \<open>half \<le> 2 ^ 52\<close> show ?thesis
    by linarith
qed

lemma floorTimes_nonneg:
  "0 \<le> w \<Longrightarrow> 0 \<le> floorTimes w double_0_7 \<and> 0 \<le> floorTimes w double_0_3"
  by (cases "w = 0")
     (simp_all add: floorTimes_def double_0_7_def double_0_3_def roundToDouble_zero
        roundToDouble_nonneg pos_imp_zdiv_nonneg_iff)

lemma floorTimes_sum:
  assumes "0 \<le> w" and "w < 2 ^ 53"
  shows "floorTimes w double_0_7 + floorTimes w double_0_3 \<le> w"
proof (cases "w = 0")
  case True
  then show ?thesis
    by (simp add: floorTimes_def roundToDouble_zero)
next
  case False
  define x where "x = roundToDouble (w * 6305039478318694)"
  define y where "y = roundToDouble (w * 5404319552844595)"
  from False assms have w: "0 < w" by simp
  have "0 < w * 6305039478318694" and "w * 6305039478318694 < 2 ^ 106"
    using w assms(2) by simp_all
  from roundToDouble_upper [OF this] have x: "x \<le> w * 6305039478318694 + 2 ^ 52"
    by (simp add: x_def)
  have "0 < w * 5404319552844595" and "w * 5404319552844595 < 2 ^ 106"
    using w assms(2) by simp_all
  from roundToDouble_upper [OF this] have y: "y \<le> w * 5404319552844595 + 2 ^ 52"
    by (simp add: y_def)
  have val: "floorTimes w double_0_7 = x div 2 ^ 53" "floorTimes w double_0_3 = y div 2 ^ 54"
    using w by (simp_all add: floorTimes_def double_0_7_def double_0_3_def x_def y_def)
  have "x = 2 ^ 53 * (x div 2 ^ 53) + x mod 2 ^ 53" and "0 \<le> x mod 2 ^ 53"
    and "y = 2 ^ 54 * (y div 2 ^ 54) + y mod 2 ^ 54" and "0 \<le> y mod 2 ^ 54"
    by simp_all
  with x y w have "x div 2 ^ 53 + y div 2 ^ 54 \<le> w"
    by simp
  then show ?thesis
    by (simp add: val)
qed

lemma corner_names_differ:
  "str ''bottom-right'' \<noteq> str ''top-left''"
  "str ''bottom-right'' \<noteq> str ''top-right''"
  "str ''bottom-right'' \<noteq> str ''bottom-left''"
  by (simp_all add: str_def)

lemma floorTimes_examples:
  "floorTimes 90 double_0_7 = 62" and "floorTimes 640 double_0_7 = 448"
  and "floorTimes 360 double_0_7 = 251" and "floorTimes 360 double_0_3 = 108"
  by code_simp+

section \<open>Properties of the path functions\<close>













section \<open>Properties of the batch\<close>

lemma processJob_cases:
  "(\<exists>res. snd (jobBody opts total' i videoFile wd) = Resolved res
        \<and> snd (processJob opts total' i videoFile wd) = Some res)
   \<or> (\<exists>err. snd (jobBody opts total' i videoFile wd) = Rejected err
        \<and> snd (processJob opts total' i videoFile wd) = Some (Failure (basename videoFile) err))
   \<or> (snd (jobBody opts total' i videoFile wd) = Pending
        \<and> snd (processJob opts total' i videoFile wd) = None)"
  by (cases "jobBody opts total' i videoFile wd"; cases "snd (jobBody opts total' i videoFile wd)")
     (auto simp: processJob_def Let_def)

lemma jobBody_resolved_file:
  "snd (jobBody opts total' i videoFile wd) = Resolved res \<Longrightarrow> resultFile res = basename videoFile"
  by (auto simp: jobBody_def Let_def split: if_splits sum.splits prod.splits settled.splits)

lemma processJob_file:
  "snd (processJob opts total' i videoFile wd) = Some res \<Longrightarrow> resultFile res = basename videoFile"
  using processJob_cases [of opts total' i videoFile wd] jobBody_resolved_file [of opts total' i videoFile wd]
  by auto

lemma compositing_pending:
  "processVideoWithCanvasWatermark c = (percents, Pending) \<Longrightarrow> mkdir c \<noteq> None"
  by (auto simp: processVideoWithCanvasWatermark_def split: option.splits)

lemma jobBody_pending:
  assumes "snd (jobBody opts total' i videoFile wd) = Pending"
  shows "\<exists>image overlay. mkdir (compositor wd image overlay) \<noteq> None"
proof (rule ccontr)
  assume "\<not> ?thesis"
  then have ok: "\<And>image overlay percents.
      processVideoWithCanvasWatermark (compositor wd image overlay) \<noteq> (percents, Pending)"
    using compositing_pending by blast
  show False
    using assms ok
    by (auto simp: jobBody_def Let_def split: if_splits sum.splits prod.splits settled.splits)
qed

lemma processJob_ends:
  assumes "\<forall>image overlay. mkdir (compositor wd image overlay) = None"
  shows "snd (processJob opts total' i videoFile wd) \<noteq> None"
  using processJob_cases [of opts total' i videoFile wd] jobBody_pending [of opts total' i videoFile wd] assms
  by auto

lemma runJobs_results:
  assumes "\<forall>k < length files. snd (processJob opts total' (i + k) (files ! k) (worlds (i + k))) \<noteq> None"
  shows "snd (runJobs opts worlds total' results i files) =
           Some (results @ map (\<lambda>k. the (snd (processJob opts total' (i + k) (files ! k) (worlds (i + k)))))
                            [0 ..< length files])"
  using assms
proof (induction files arbitrary: results i)
  case Nil
  then show ?case by simp
next
  case (Cons videoFile rest)
  from Cons.prems [rule_format, of 0]
  obtain events res where job: "processJob opts total' i videoFile (worlds i) = (events, Some res)"
    by (cases "processJob opts total' i videoFile (worlds i)") auto
  have "\<forall>k < length rest. snd (processJob opts total' (Suc i + k) (rest ! k) (worlds (Suc i + k))) \<noteq> None"
    using Cons.prems by (auto dest: spec [where x = "Suc k" for k])
  from Cons.IH [OF this, of "results @ [res]"]
  have "snd (runJobs opts worlds total' (results @ [res]) (Suc i) rest) =
          Some (results @ res # map (\<lambda>k. the (snd (processJob opts total' (Suc i + k) (rest ! k) (worlds (Suc i + k)))))
                            [0 ..< length rest])"
    by simp
  moreover have "map (\<lambda>k. the (snd (processJob opts total' (i + k) ((videoFile # rest) ! k) (worlds (i + k)))))
                   [0 ..< length (videoFile # rest)]
      = res # map (\<lambda>k. the (snd (processJob opts total' (Suc i + k) (rest ! k) (worlds (Suc i + k)))))
                [0 ..< length rest]"
    using job by (simp add: upt_conv_Cons map_Suc_upt [symmetric] del: upt_Suc)
  ultimately show ?case
    using job by (simp add: split_beta)
qed

lemma processVideos_isolation:
  assumes "\<forall>k < length (videoFiles opts). \<forall>image overlay. mkdir (compositor (worlds k) image overlay) = None"
  shows "\<exists>rs. snd (processVideos opts worlds) = Some rs
           \<and> length rs = length (videoFiles opts)
           \<and> (\<forall>k < length (videoFiles opts).
                 snd (processJob opts (length (videoFiles opts)) k (videoFiles opts ! k) (worlds k)) = Some (rs ! k)
                 \<and> resultFile (rs ! k) = basename (videoFiles opts ! k))"
proof -
  let ?n = "length (videoFiles opts)"
  let ?job = "\<lambda>k. snd (processJob opts ?n k (videoFiles opts ! k) (worlds k))"
  have ends: "\<forall>k < ?n. ?job k \<noteq> None"
  proof (intro allI impI)
    fix k
    assume "k < ?n"
    with assms have "\<forall>image overlay. mkdir (compositor (worlds k) image overlay) = None"
      by blast
    from processJob_ends [OF this] show "?job k \<noteq> None" .
  qed
  from runJobs_results [of "videoFiles opts" opts ?n 0 worlds "[]"] ends
  have res: "snd (processVideos opts worlds) = Some (map (\<lambda>k. the (?job k)) [0 ..< ?n])"
    by (simp add: processVideos_def)
  have "\<forall>k < ?n. ?job k = Some (map (\<lambda>k. the (?job k)) [0 ..< ?n] ! k)"
    using ends by auto
  moreover have "\<forall>k < ?n. resultFile (map (\<lambda>k. the (?job k)) [0 ..< ?n] ! k) = basename (videoFiles opts ! k)"
    using ends processJob_file by fastforce
  ultimately show ?thesis using res by simp
qed

lemma processJob_error_recorded:
  assumes "snd (jobBody opts total' i videoFile wd) = Rejected err"
  shows "processJob opts total' i videoFile wd =
           (fst (jobBody opts total' i videoFile wd)
              @ [FileCompleted (basename videoFile) (str ''error'') (Some err) i total'],
            Some (Failure (basename videoFile) err))"
  using assms by (cases "jobBody opts total' i videoFile wd") (simp add: processJob_def Let_def)

lemma chooseColor_analysis_fails:
  assumes "enableSmartColor opts" and "analyzeVideoColor wd (position opts) = Inl err"
  shows "chooseColor opts total' i baseName wd =
           ([ProcessingStatus baseName (str ''analyzing'') i total',
             ColorAnalyzed baseName (watermarkColor opts) None (Some err) (str ''original'') (position opts) i]
            @ fst (chooseColor (opts\<lparr>enableSmartColor := False\<rparr>) total' i baseName wd),
            snd (chooseColor (opts\<lparr>enableSmartColor := False\<rparr>) total' i baseName wd))"
    and "snd (chooseColor opts total' i baseName wd) = (watermarkColor opts, str ''manual'')"
  using assms by (simp_all add: chooseColor_def)

section \<open>The claims\<close>

text \<open>
  C4. For a brightness in \<open>[0,1]\<close>, \<open>getColorByBrightness\<close> returns black text with class
  \<open>dark\<close> when the brightness is above 0.5 and white text with class \<open>light\<close> when it is at
  most 0.5; the colour is black exactly when the class is \<open>dark\<close>, and white exactly when
  it is \<open>light\<close>.
\<close>

theorem getColorByBrightness_decision:
  assumes "0 \<le> brightness" and "brightness \<le> 1"
  shows "(brightness > 0.5 \<longrightarrow>
            getColorByBrightness brightness = \<lparr>color = str ''#000000'', type = str ''dark''\<rparr>)
       \<and> (brightness \<le> 0.5 \<longrightarrow>
            getColorByBrightness brightness = \<lparr>color = str ''#FFFFFF'', type = str ''light''\<rparr>)
       \<and> (color (getColorByBrightness brightness) = str ''#000000''
            \<longleftrightarrow> type (getColorByBrightness brightness) = str ''dark'')
       \<and> (color (getColorByBrightness brightness) = str ''#FFFFFF''
            \<longleftrightarrow> type (getColorByBrightness brightness) = str ''light'')"
  by (simp add: getColorByBrightness_def BRIGHTNESS_THRESHOLD_def str_def)

theorem getColorByBrightness_decision_witness:
  "(0::real) \<le> 0.8 \<and> (0.8::real) \<le> 1 \<and> (0.8::real) > 0.5
     \<and> getColorByBrightness 0.8 = \<lparr>color = str ''#000000'', type = str ''dark''\<rparr>
     \<and> (0::real) \<le> 0.2 \<and> (0.2::real) \<le> 1 \<and> (0.2::real) \<le> 0.5
     \<and> getColorByBrightness 0.2 = \<lparr>color = str ''#FFFFFF'', type = str ''light''\<rparr>"
  using getColorByBrightness_decision [of "0.8"] getColorByBrightness_decision [of "0.2"]
  by simp

text \<open>
  C5, as the specification states it: at the boundary value 0.5 the choice would be black
  text with class \<open>dark\<close>. The comparison with the threshold is strict, so it is not.
\<close>

theorem getColorByBrightness_half_not_dark:
  "getColorByBrightness 0.5 \<noteq> \<lparr>color = str ''#000000'', type = str ''dark''\<rparr>"
  by (simp add: getColorByBrightness_def BRIGHTNESS_THRESHOLD_def str_def)

text \<open>
  C5, amended: at the boundary value 0.5, \<open>getColorByBrightness\<close> selects white text with
  class \<open>light\<close>.
\<close>

theorem getColorByBrightness_half_light:
  "getColorByBrightness 0.5 = \<lparr>color = str ''#FFFFFF'', type = str ''light''\<rparr>"
  by (simp add: getColorByBrightness_def BRIGHTNESS_THRESHOLD_def)

text \<open>
  C6, as the specification states it: every string that is not of the form \<open>#RRGGBB\<close>,
  also one that starts with \<open>#\<close>, would yield white. \<open>#GGGGGG\<close> yields three \<open>NaN\<close>
  channels, and the too short \<open>#FFF\<close> yields 255, 15 and \<open>NaN\<close>.
\<close>

theorem parseColor_malformed_hash_not_white:
  "\<not> isHexColor (str ''#GGGGGG'')
     \<and> parseColor (str ''#GGGGGG'') = \<lparr>r = NaN, g = NaN, b = NaN\<rparr>
     \<and> \<not> isHexColor (str ''#FFF'')
     \<and> parseColor (str ''#FFF'') = \<lparr>r = Num 255, g = Num 15, b = NaN\<rparr>"
  by (simp add: isHexColor_def parseColor_def startsWith_def str_def substring_def
      parseInt16_def stripSign_def stripPrefix_def isWhiteSpace_def isHexDigit_def
      hexDigit_def hexValue_def)

text \<open>
  C6, amended: every string that does not start with \<open>#\<close> yields white (255,255,255);
  a string \<open>#RRGGBB\<close> of six hexadecimal digits yields three channels between 0 and 255;
  parsing never fails (\<open>parseColor\<close> has a value for every string). A string that starts
  with \<open>#\<close> and is malformed is parsed slice by slice all the same.
\<close>

theorem parseColor_fallback:
  "(\<not> startsWith col (str ''#'') \<longrightarrow> parseColor col = \<lparr>r = Num 255, g = Num 255, b = Num 255\<rparr>)
     \<and> (isHexColor col \<longrightarrow>
          (\<exists>x y z. parseColor col = \<lparr>r = Num x, g = Num y, b = Num z\<rparr>
             \<and> 0 \<le> x \<and> x \<le> 255 \<and> 0 \<le> y \<and> y \<le> 255 \<and> 0 \<le> z \<and> z \<le> 255))
     \<and> (startsWith col (str ''#'') \<longrightarrow>
          parseColor col = \<lparr>r = parseInt16 (take 2 (drop 1 col)),
                              g = parseInt16 (take 2 (drop 3 col)),
                              b = parseInt16 (take 2 (drop 5 col))\<rparr>)"
  using parseColor_hex by (simp add: parseColor_def substring_def)

theorem parseColor_fallback_witness:
  "\<not> startsWith (str ''white'') (str ''#'')
     \<and> parseColor (str ''white'') = \<lparr>r = Num 255, g = Num 255, b = Num 255\<rparr>
     \<and> isHexColor (str ''#1a2B3c'')
     \<and> parseColor (str ''#1a2B3c'') = \<lparr>r = Num 26, g = Num 43, b = Num 60\<rparr>"
proof -
  have a: "\<not> startsWith (str ''white'') (str ''#'')"
    by (simp add: startsWith_def str_def)
  have b: "isHexColor (str ''#1a2B3c'')"
    by (simp add: isHexColor_def startsWith_def str_def isHexDigit_def hexDigit_def)
  have c: "parseColor (str ''#1a2B3c'') = \<lparr>r = Num 26, g = Num 43, b = Num 60\<rparr>"
    by (simp add: parseColor_def startsWith_def str_def substring_def
      parseInt16_def stripSign_def stripPrefix_def isWhiteSpace_def isHexDigit_def
      hexDigit_def hexValue_def)
  from a b c parseColor_fallback [of "str ''white''"] show ?thesis by simp
qed

text \<open>
  C8. Every line that \<open>wrapText\<close> produces measures at most \<open>maxWidth\<close>, unless it
  consists of exactly one character; and the lines, concatenated in order, are the text.
\<close>

theorem wrapText_width_and_concat:
  "(\<forall>l \<in> set (wrapText text widthOf maxWidth). length l = 1 \<or> widthOf l \<le> maxWidth)
     \<and> concat (wrapText text widthOf maxWidth) = text"
proof -
  obtain lines cur where loop: "wrapLoop widthOf maxWidth [] [] text = (lines, cur)"
    by (cases "wrapLoop widthOf maxWidth [] [] text")
  from wrapLoop_width [OF loop]
  have w: "\<forall>l \<in> set lines. length l = 1 \<or> widthOf l \<le> maxWidth"
    and c: "cur = [] \<or> length cur = 1 \<or> widthOf cur \<le> maxWidth"
    by simp_all
  from wrapLoop_concat [OF loop] have "concat lines @ cur = text" by simp
  with w c show ?thesis
    by (auto simp: wrapText_def loop)
qed

theorem wrapText_width_and_concat_witness:
  "wrapText ''abcde'' (\<lambda>l. real (length l)) 2 = [''ab'', ''cd'', ''e'']
     \<and> list_all (\<lambda>l. length l = 1 \<or> real (length l) \<le> 2)
           (wrapText ''abcde'' (\<lambda>l. real (length l)) 2)
     \<and> wrapText ''abc'' (\<lambda>l. 5 * real (length l)) 2 = [''a'', ''b'', ''c'']
     \<and> concat (wrapText ''abcde'' (\<lambda>l. real (length l)) 2) = ''abcde''"
  using wrapText_width_and_concat [of "''abcde''" "\<lambda>l. real (length l)" 2]
  by (simp add: wrapText_def)

text \<open>
  C10. No line that \<open>wrapText\<close> returns is empty, and for the empty text it returns no
  line at all.
\<close>

theorem wrapText_no_blank_line:
  "[] \<notin> set (wrapText text widthOf maxWidth) \<and> wrapText [] widthOf maxWidth = []"
proof -
  obtain lines cur where loop: "wrapLoop widthOf maxWidth [] [] text = (lines, cur)"
    by (cases "wrapLoop widthOf maxWidth [] [] text")
  from wrapLoop_nonempty [OF loop] have "[] \<notin> set lines" by simp
  then show ?thesis
    by (auto simp: wrapText_def loop)
qed

text \<open>
  C1, at an input where it fails: a batch of two files whose first job reaches the
  compositing step while the scratch directory cannot be created (\<open>mkdir\<close> rejects, here
  with \<open>ENOSPC\<close>). The error is not caught at the per-job boundary: the promise of
  \<open>processVideoWithCanvasWatermark\<close> stays pending, so the handler never returns a result
  list, sends no \<open>file-completed\<close> message, and the second job never starts. For every
  batch without such a failure the claim holds: \<open>processVideos_isolation\<close>.
\<close>

theorem processVideos_pending:
  "processVideos demoOptions (\<lambda>i. if i = 0 then noScratchDir else demoWorld) = ([], None)"
  by code_simp






text \<open>
  C7, as the specification states it: for every position and all integers
  \<open>width, height > 0\<close> the rectangle would lie inside the frame. The products are
  computed in doubles: for the width 53579362097318992 (a double) the \<open>top-right\<close>
  rectangle ends two pixels beyond the frame. And \<open>constructor\<close> is a property that the
  object \<open>configs\<close> inherits, so \<open>configs[position]\<close> is the function \<open>Object\<close>, which
  is truthy, and \<open>getRegionConfig\<close> returns it and no rectangle.
\<close>

theorem getRegionConfig_outside:
  "getRegionConfig (str ''top-right'') 53579362097318992 360 =
     Own \<lparr>left = 37505553468123296, top' = 0, width = 16073808629195698, height = 108\<rparr>
   \<and> \<not> contained \<lparr>left = 37505553468123296, top' = 0, width = 16073808629195698, height = 108\<rparr>
         53579362097318992 360
   \<and> getRegionConfig (str ''constructor'') 640 360 = Inherited (str ''constructor'')"
  by code_simp

text \<open>
  C7, amended: for every position that is not the name of a property inherited from
  \<open>Object.prototype\<close>, and all integers \<open>width\<close> and \<open>height\<close> above 0 and below \<open>2^53\<close>,
  \<open>getRegionConfig\<close> returns a rectangle that lies inside \<open>[0,width) \<times> [0,height)\<close>: its
  left, top, width and height are not negative, \<open>left + width \<le> width\<close> of the frame and
  \<open>top + height \<le> height\<close> of the frame.
\<close>

theorem getRegionConfig_contained:
  assumes "0 < w" and "w < 2 ^ 53" and "0 < h" and "h < 2 ^ 53"
    and "corner \<notin> set objectPrototypeKeys"
  shows "\<exists>reg. getRegionConfig corner w h = Own reg \<and> contained reg w h"
proof -
  have w: "0 \<le> w" and h: "0 \<le> h"
    using assms by simp_all
  note bounds = floorTimes_nonneg [OF w] floorTimes_sum [OF w assms(2)]
    floorTimes_nonneg [OF h] floorTimes_sum [OF h assms(4)]
  show ?thesis
    using assms(5) bounds
    by (simp add: getRegionConfig_def getProperty_def orElse_def contained_def
        corner_names_differ)
qed

theorem getRegionConfig_contained_witness:
  "(0::int) < 90 \<and> (90::int) < 2 ^ 53
   \<and> str ''nowhere'' \<notin> set objectPrototypeKeys
   \<and> getRegionConfig (str ''nowhere'') 90 90 =
        Own \<lparr>left = 62, top' = 62, width = 27, height = 27\<rparr>
   \<and> contained \<lparr>left = 62, top' = 62, width = 27, height = 27\<rparr> 90 90"
proof -
  have key: "str ''nowhere'' \<notin> set objectPrototypeKeys"
    by code_simp
  have val: "getRegionConfig (str ''nowhere'') 90 90 =
      Own \<lparr>left = 62, top' = 62, width = 27, height = 27\<rparr>"
    by code_simp
  from getRegionConfig_contained [of 90 90 "str ''nowhere''"] key val show ?thesis
    by simp
qed

text \<open>
  C9, as the specification states it: the handler would reject a request with an empty
  file list or without watermark text before any job starts. It returns an empty result
  list for the first, and runs the job to success for the second.
\<close>

theorem processVideos_does_not_reject:
  "processVideos (demoOptions\<lparr>videoFiles := []\<rparr>) demoWorlds = ([], Some [])
   \<and> snd (processVideos (demoOptions\<lparr>videoFiles := [str ''/videos/a.mov''], watermarkText := []\<rparr>)
            demoWorlds)
       = Some [Success (str ''a.mov'') (str ''/videos/a-watermark.mp4'') (str ''#FFFFFF'')
                 (str ''manual'')]"
  by code_simp

text \<open>
  C9, amended: the handler of \<open>process-videos\<close> rejects no request at entry: for an
  empty file list it returns an empty result list and sends no message, and an empty
  watermark text is laid out as no line at all. The request is checked in the front end:
  the click handler shows an alert and does not call \<open>processVideos\<close> when the watermark
  text is empty or no video is selected, and calls it with a non-empty text and a
  non-empty file list otherwise.
\<close>

theorem request_validation:
  "processVideos (opts\<lparr>videoFiles := []\<rparr>) worlds = ([], Some [])
   \<and> (canvasError wd = None \<longrightarrow>
        (\<exists>image. generateWatermarkImage wd [] px col alpha w h = Inr image \<and> fillText image = []))
   \<and> (watermarkTextValue pg = [] \<or> selectedVideos pg = [] \<longrightarrow>
        (\<exists>a. processButtonClick pg = Alert a))
   \<and> (watermarkTextValue pg \<noteq> [] \<and> selectedVideos pg \<noteq> [] \<longrightarrow>
        (\<exists>request. processButtonClick pg = Invoke request
           \<and> videoFiles request \<noteq> [] \<and> watermarkText request \<noteq> []))"
  by (auto simp: processVideos_def processButtonClick_def generateWatermarkImage_def
      wrapText_def Let_def)

theorem request_validation_witness:
  "processButtonClick (demoPage\<lparr>watermarkTextValue := []\<rparr>) = Alert FillInWatermarkText
   \<and> processButtonClick (demoPage\<lparr>selectedVideos := []\<rparr>) = Alert SelectVideosFirst
   \<and> processButtonClick demoPage = Invoke (demoOptions\<lparr>videoFiles := [str ''/videos/a.mov'']\<rparr>)
   \<and> canvasError demoWorld = None
   \<and> generateWatermarkImage demoWorld [] 24 (str ''#FFFFFF'') 0.8 1920 1080 =
        Inr \<lparr>canvasWidth = 4, canvasHeight = 4,
             fillStyle = (\<lparr>r = Num 255, g = Num 255, b = Num 255\<rparr>, 0.8), fillText = []\<rparr>"
proof -
  have a: "watermarkTextValue demoPage \<noteq> [] \<and> selectedVideos demoPage \<noteq> []"
    by (simp add: demoPage_def)
  have b: "canvasError demoWorld = None"
    by (simp add: demoWorld_def)
  have c: "processButtonClick demoPage = Invoke (demoOptions\<lparr>videoFiles := [str ''/videos/a.mov'']\<rparr>)"
    by (simp add: processButtonClick_def demoPage_def demoOptions_def)
  have d: "generateWatermarkImage demoWorld [] 24 (str ''#FFFFFF'') 0.8 1920 1080 =
        Inr \<lparr>canvasWidth = 4, canvasHeight = 4,
             fillStyle = (\<lparr>r = Num 255, g = Num 255, b = Num 255\<rparr>, 0.8), fillText = []\<rparr>"
    by (simp add: generateWatermarkImage_def b wrapText_def PADDING_x_def parseColor_def
        startsWith_def str_def substring_def parseInt16_def stripSign_def stripPrefix_def
        isWhiteSpace_def isHexDigit_def hexDigit_def hexValue_def)
  from request_validation [of demoOptions demoWorlds demoWorld 24 "str ''#FFFFFF''" "0.8" 1920 1080
      "demoPage\<lparr>watermarkTextValue := []\<rparr>"]
    request_validation [of demoOptions demoWorlds demoWorld 24 "str ''#FFFFFF''" "0.8" 1920 1080
      "demoPage\<lparr>selectedVideos := []\<rparr>"]
    a b c d
  show ?thesis
    by (simp add: processButtonClick_def)
qed

end
